theory Spec2Isabelle
  imports Complex_Main "HOL-Library.Char_ord"
begin

section \<open>Text, character classes and the regular expressions of \<open>extract_info\<close>\<close>

text \<open>
  A transcript is a Python \<open>str\<close>. It is modelled as a \<open>string\<close> whose characters stand for
  the code points below 256. On these code points the classes used by \<open>app.py\<close> are:
  \<^item> \<open>[A-Za-z]\<close> under \<open>re.IGNORECASE\<close>: the 52 ASCII letters;
  \<^item> \<open>\s\<close> and the characters removed by \<open>str.strip()\<close>: code points 9 to 13, 28 to 32,
    133 and 160;
  \<^item> a literal pattern character under \<open>re.IGNORECASE\<close>: the character itself and, for an
    ASCII letter, its other case.
\<close>

definition is_letter :: "char \<Rightarrow> bool" where
  "is_letter c = (CHR ''A'' \<le> c \<and> c \<le> CHR ''Z'' \<or> CHR ''a'' \<le> c \<and> c \<le> CHR ''z'')"

definition is_space :: "char \<Rightarrow> bool" where
  "is_space c = (c \<in> set [CHR 0x09, CHR 0x0A, CHR 0x0B, CHR 0x0C, CHR 0x0D,
      CHR 0x1C, CHR 0x1D, CHR 0x1E, CHR 0x1F, CHR 0x20, CHR 0x85, CHR 0xA0])"

definition lower :: "char \<Rightarrow> char" where
  "lower c = (if CHR ''A'' \<le> c \<and> c \<le> CHR ''Z'' then char_of (of_char c + (32::nat)) else c)"

text \<open>The capture group \<open>([A-Za-z\s]+)\<close>: one character of it.\<close>

definition group_char :: "char \<Rightarrow> bool" where
  "group_char c = (is_letter c \<or> is_space c)"

text \<open>\<open>str.strip()\<close> without argument.\<close>

definition strip :: "string \<Rightarrow> string" where
  "strip s = rev (dropWhile is_space (rev (dropWhile is_space s)))"

text \<open>
  Every pattern of \<open>app.py\<close> has the shape \<open>LIT([A-Za-z\s]+)\<close>: a literal followed by the
  capture group, which ends the pattern. A pattern is represented by its literal \<open>LIT\<close>.

  \<open>lit_prefix lit t\<close> matches the literal at the start of \<open>t\<close>, ignoring case, and returns
  what follows it. \<open>match_here lit t\<close> is a match of the whole pattern that starts at the
  first character of \<open>t\<close>; it returns group 1, the longest non-empty run of group characters
  after the literal (the group is greedy and nothing follows it). \<open>re_search lit t\<close> is
  \<open>re.search(pattern, t, re.IGNORECASE)\<close>: the match at the leftmost start position, or
  \<open>None\<close>.
\<close>

fun lit_prefix :: "string \<Rightarrow> string \<Rightarrow> string option" where
  "lit_prefix [] t = Some t"
| "lit_prefix (p # ps) [] = None"
| "lit_prefix (p # ps) (c # cs) = (if lower c = lower p then lit_prefix ps cs else None)"

definition match_here :: "string \<Rightarrow> string \<Rightarrow> string option" where
  "match_here lit t =
     (case lit_prefix lit t of
        None \<Rightarrow> None
      | Some rest \<Rightarrow>
          (let g = takeWhile group_char rest in if g = [] then None else Some g))"

fun re_search :: "string \<Rightarrow> string \<Rightarrow> string option" where
  "re_search lit [] = match_here lit []"
| "re_search lit (c # cs) =
     (case match_here lit (c # cs) of
        Some g \<Rightarrow> Some g
      | None \<Rightarrow> re_search lit cs)"

section \<open>FieldExtractor: \<open>extract_info\<close>\<close>

text \<open>The dictionary \<open>{"name": ..., "location": ...}\<close>; Python's \<open>None\<close> is \<open>None\<close>.\<close>

record info =
  name :: "string option"
  location :: "string option"

definition name_patterns :: "string list" where
  "name_patterns = [''my name is '', ''myself '', ''i am '', ''this is me '', ''i'm '']"

definition location_patterns :: "string list" where
  "location_patterns = [''i'm from '', ''i live in '', ''i am from '', ''then i moved to '']"

text \<open>
  The loop \<open>for pattern in patterns: match = re.search(...); if match: ...; break\<close>: the
  stripped group of the first pattern of the list that matches.
\<close>

fun first_match :: "string list \<Rightarrow> string \<Rightarrow> string option" where
  "first_match [] t = None"
| "first_match (p # ps) t =
     (case re_search p t of
        Some g \<Rightarrow> Some (strip g)
      | None \<Rightarrow> first_match ps t)"

definition extract_info :: "string \<Rightarrow> info" where
  "extract_info t =
     \<lparr>name = first_match name_patterns t, location = first_match location_patterns t\<rparr>"

section \<open>Python values, exceptions and JSON\<close>

text \<open>
  An exception is its class and \<open>str(e)\<close>. All classes below derive from \<open>Exception\<close>, so
  \<open>except Exception\<close> catches each of them.
\<close>

datatype exn_class =
  CalledProcessError | FileNotFoundError | PermissionError | OSError
  | TypeError | AttributeError | KeyError | ValueError | Exception
  | BadRequest | UnsupportedMediaType

datatype exn = Exn (cls: exn_class) (msg: string)

text \<open>
  A \<open>float\<close>: a finite value, which is a rational number, or one of the three others
  that \<open>json.loads\<close> accepts.
\<close>

datatype pyfloat = Finite rat | PosInf | NegInf | NaN

text \<open>
  A decoded JSON value; \<open>JNull\<close> is Python's \<open>None\<close>, a number is an \<open>int\<close> or a \<open>float\<close>.
  An object is the list of the items of the \<open>dict\<close>, looked up with \<open>map_of\<close>.
\<close>

datatype json =
  JNull | JBool bool | JInt int | JFloat pyfloat | JStr string
  | JArr "json list" | JObj "(string \<times> json) list"

text \<open>
  Python truthiness, as tested by \<open>if not data\<close>: of the floats only \<open>0.0\<close> and \<open>-0.0\<close>,
  both of value zero, are false.
\<close>

fun truthy :: "json \<Rightarrow> bool" where
  "truthy JNull = False"
| "truthy (JBool b) = b"
| "truthy (JInt n) = (n \<noteq> 0)"
| "truthy (JFloat x) = (x \<noteq> Finite 0)"
| "truthy (JStr s) = (s \<noteq> [])"
| "truthy (JArr xs) = (xs \<noteq> [])"
| "truthy (JObj kvs) = (kvs \<noteq> [])"

fun type_name :: "json \<Rightarrow> string" where
  "type_name JNull = ''NoneType''"
| "type_name (JBool b) = ''bool''"
| "type_name (JInt n) = ''int''"
| "type_name (JFloat x) = ''float''"
| "type_name (JStr s) = ''str''"
| "type_name (JArr xs) = ''list''"
| "type_name (JObj kvs) = ''dict''"

definition no_get :: "json \<Rightarrow> exn" where
  "no_get v = Exn AttributeError
     ([CHR 0x27] @ type_name v @ [CHR 0x27] @ '' object has no attribute ''
       @ [CHR 0x27] @ ''get'' @ [CHR 0x27])"

text \<open>\<open>dict.get(k, d)\<close> on the items of a \<open>dict\<close>.\<close>

definition dict_get :: "(string \<times> json) list \<Rightarrow> string \<Rightarrow> json \<Rightarrow> json" where
  "dict_get kvs k d = (case map_of kvs k of None \<Rightarrow> d | Some v \<Rightarrow> v)"

text \<open>\<open>v.get(k, d)\<close> on any value: only a \<open>dict\<close> has the method.\<close>

fun py_get :: "json \<Rightarrow> string \<Rightarrow> json \<Rightarrow> exn + json" where
  "py_get (JObj kvs) k d = Inr (dict_get kvs k d)"
| "py_get v k d = Inl (no_get v)"

section \<open>Files, requests, responses and the external collaborators\<close>

text \<open>
  A file is a temporary file (its number and suffix) or a named file in a directory. A
  relative name such as \<open>transcription_data.xlsx\<close> denotes a file only once a directory is
  chosen for it.
\<close>

datatype path = Tmp nat string | File string string

type_synonym sheet = "(string \<times> json) list list"

datatype content = Blank | Uploaded string | Wave | Workbook sheet | Partial

text \<open>
  The file system: the existing files and the number of temporary names handed out so far.
  \<open>tempfile.NamedTemporaryFile(delete=False, suffix=...)\<close> creates an empty file under a
  name not used before and leaves it on disk.
\<close>

record fs =
  disk :: "path \<rightharpoonup> content"
  counter :: nat

definition named_temporary_file :: "string \<Rightarrow> fs \<Rightarrow> path \<times> fs" where
  "named_temporary_file suffix s =
     (Tmp (counter s) suffix,
      s\<lparr>disk := (disk s)(Tmp (counter s) suffix \<mapsto> Blank), counter := Suc (counter s)\<rparr>)"

definition write_file :: "path \<Rightarrow> content \<Rightarrow> fs \<Rightarrow> fs" where
  "write_file p c s = s\<lparr>disk := (disk s)(p \<mapsto> c)\<rparr>"

definition os_remove :: "path \<Rightarrow> fs \<Rightarrow> fs" where
  "os_remove p s = s\<lparr>disk := (disk s)(p := None)\<rparr>"

text \<open>
  \<open>os.path.exists\<close> calls \<open>os.stat\<close> and turns \<open>OSError\<close> and \<open>ValueError\<close> into \<open>False\<close>;
  for \<open>None\<close>, \<open>os.stat\<close> raises \<open>TypeError\<close>, which \<open>os.path.exists\<close> lets through.
\<close>

definition os_path_exists :: "fs \<Rightarrow> path option \<Rightarrow> exn + bool" where
  "os_path_exists s p =
     (case p of
        None \<Rightarrow> Inl (Exn TypeError
          ''stat: path should be string, bytes, os.PathLike or integer, not NoneType'')
      | Some q \<Rightarrow> Inr (disk s q \<noteq> None))"

datatype payload = Json json | Attachment path content

record response =
  status :: nat
  body :: payload

definition error_response :: "nat \<Rightarrow> string \<Rightarrow> response" where
  "error_response code m = \<lparr>status = code, body = Json (JObj [(''error'', JStr m)])\<rparr>"

text \<open>
  A request: \<open>request.files\<close> (field name and uploaded bytes), \<open>request.is_json\<close> (the
  content type announces JSON), and the JSON value that the bytes of the body denote,
  \<open>None\<close> when they denote none. A body of length zero denotes none. A request that
  carries no body at all has no content type either.
\<close>

record request =
  files :: "(string \<times> string) list"
  is_json :: bool
  decoded :: "json option"

text \<open>What \<open>df.to_excel\<close> does: it writes the workbook, or raises and leaves the file as
  it was (\<open>None\<close>) or with some other content.\<close>

datatype excel_outcome = Written | Failed exn "content option"

text \<open>
  What the external collaborators do during one request; \<open>None\<close> in an \<open>exn option\<close> is a
  call that returns normally.
  \<^item> \<open>ffmpeg_version\<close>: \<open>subprocess.run(["ffmpeg", "-version"], check=True, ...)\<close>;
  \<^item> \<open>file_save\<close>: \<open>file.save(video_path)\<close>;
  \<^item> \<open>video_file_clip\<close>: \<open>VideoFileClip(video_path)\<close>, and whether \<open>clip.audio\<close> is not
    \<open>None\<close>;
  \<^item> \<open>write_audiofile\<close>, \<open>clip_close\<close>: \<open>clip.audio.write_audiofile(...)\<close>, \<open>clip.close()\<close>;
  \<^item> \<open>whisper_model\<close>: the global of that name, \<open>None\<close> until \<open>load_model\<close> has run;
    applied to the audio path it is \<open>whisper_model.transcribe(audio_path)\<close>, a \<open>dict\<close>;
  \<^item> \<open>to_excel\<close>: \<open>df.to_excel(excel_path, index=False)\<close>;
  \<^item> \<open>cwd\<close>: the working directory of the process, against which \<open>to_excel\<close> resolves a
    relative name;
  \<^item> \<open>root_path\<close>: \<open>app.root_path\<close>, against which \<open>flask.send_file\<close> resolves a relative
    name;
  \<^item> \<open>non_json_body\<close>: what \<open>request.get_json()\<close> does when the content type does not
    announce JSON: it returns \<open>None\<close> (Flask up to 2.0) or raises (Flask 2.1 and 2.2).
  Creating and deleting a temporary file are taken to succeed.
\<close>

record world =
  ffmpeg_version :: "exn option"
  file_save :: "exn option"
  video_file_clip :: "exn + bool"
  write_audiofile :: "exn option"
  clip_close :: "exn option"
  whisper_model :: "(path option \<Rightarrow> exn + (string \<times> string) list) option"
  to_excel :: "sheet \<Rightarrow> excel_outcome"
  cwd :: string
  root_path :: string
  non_json_body :: "exn option"

section \<open>AudioExtractor and Transcriber\<close>

definition check_ffmpeg :: "world \<Rightarrow> exn + bool" where
  "check_ffmpeg w =
     (case ffmpeg_version w of
        None \<Rightarrow> Inr True
      | Some e \<Rightarrow>
          if cls e = CalledProcessError \<or> cls e = FileNotFoundError then Inr False
          else Inl e)"

text \<open>
  \<open>extract_audio\<close> returns the pair \<open>(audio_path, error)\<close>, or raises what \<open>check_ffmpeg\<close>
  raises: that call is outside the \<open>try\<close>.
\<close>

definition extract_audio ::
  "world \<Rightarrow> path \<Rightarrow> fs \<Rightarrow> (exn + path option \<times> string option) \<times> fs" where
  "extract_audio w video_path s =
     (case check_ffmpeg w of
        Inl e \<Rightarrow> (Inl e, s)
      | Inr False \<Rightarrow>
          (Inr (None, Some ''ffmpeg is not installed or not working properly''), s)
      | Inr True \<Rightarrow>
          (let (audio_path, s1) = named_temporary_file ''.wav'' s in
           case video_file_clip w of
             Inl e \<Rightarrow> (Inr (None, Some (msg e)), s1)
           | Inr has_audio \<Rightarrow>
               if \<not> has_audio then (Inr (None, Some ''No audio stream found in video''), s1)
               else
                 (case write_audiofile w of
                    Some e \<Rightarrow> (Inr (None, Some (msg e)), s1)
                  | None \<Rightarrow>
                      (let s2 = write_file audio_path Wave s1 in
                       case clip_close w of
                         Some e \<Rightarrow> (Inr (None, Some (msg e)), s2)
                       | None \<Rightarrow> (Inr (Some audio_path, None), s2)))))"

definition transcribe_audio :: "world \<Rightarrow> path option \<Rightarrow> string option \<times> string option" where
  "transcribe_audio w audio_path =
     (case whisper_model w of
        None \<Rightarrow> (None, Some ''Whisper model not loaded'')
      | Some model \<Rightarrow>
          (case model audio_path of
             Inl e \<Rightarrow> (None, Some (msg e))
           | Inr result \<Rightarrow>
               (case map_of result ''text'' of
                  None \<Rightarrow> (None, Some ([CHR 0x27] @ ''text'' @ [CHR 0x27]))
                | Some t \<Rightarrow> (Some t, None))))"

section \<open>RequestPipeline: the \<open>/transcribe\<close> endpoint\<close>

definition json_of :: "string option \<Rightarrow> json" where
  "json_of x = (case x of None \<Rightarrow> JNull | Some s \<Rightarrow> JStr s)"

text \<open>
  \<open>if error: raise Exception(error)\<close>, for \<open>audio_error\<close> and \<open>transcribe_error\<close>: the test
  is truthiness, so neither \<open>None\<close> nor the empty string raises.
\<close>

definition raise_if :: "string option \<Rightarrow> exn option" where
  "raise_if error =
     (case error of
        None \<Rightarrow> None
      | Some m \<Rightarrow> if m = [] then None else Some (Exn Exception m))"

text \<open>
  The body of the \<open>try\<close> (lines 113 to 126): a response or the exception raised, together
  with the local \<open>audio_path\<close>: \<open>None\<close> while the name is unbound, \<open>Some v\<close> once line 113
  has assigned \<open>v\<close>. \<open>re.search\<close> raises \<open>TypeError\<close> when the text is \<open>None\<close>.
\<close>

definition try_body ::
  "world \<Rightarrow> path \<Rightarrow> fs \<Rightarrow> (exn + response) \<times> path option option \<times> fs" where
  "try_body w video_path s =
     (case extract_audio w video_path s of
        (Inl e, s1) \<Rightarrow> (Inl e, None, s1)
      | (Inr (audio_path, audio_error), s1) \<Rightarrow>
          (case raise_if audio_error of
             Some e \<Rightarrow> (Inl e, Some audio_path, s1)
           | None \<Rightarrow>
               (case transcribe_audio w audio_path of
                  (transcription, transcribe_error) \<Rightarrow>
                    (case raise_if transcribe_error of
                       Some e \<Rightarrow> (Inl e, Some audio_path, s1)
                     | None \<Rightarrow>
                         (case transcription of
                            None \<Rightarrow>
                              (Inl (Exn TypeError ''expected string or bytes-like object''),
                               Some audio_path, s1)
                          | Some t \<Rightarrow>
                              (Inr \<lparr>status = 200,
                                    body = Json (JObj
                                      [(''transcription'', JStr t),
                                       (''extracted_info'', JObj
                                          [(''name'', json_of (name (extract_info t))),
                                           (''location'',
                                            json_of (location (extract_info t)))])])\<rparr>,
                               Some audio_path, s1))))))"

text \<open>The \<open>finally\<close> block (lines 130 to 133): the exception it raises, if any.\<close>

definition finally_block :: "path \<Rightarrow> path option option \<Rightarrow> fs \<Rightarrow> exn option \<times> fs" where
  "finally_block video_path audio_local s =
     (case os_path_exists s (Some video_path) of
        Inl e \<Rightarrow> (Some e, s)
      | Inr ex \<Rightarrow>
          (let s1 = (if ex then os_remove video_path s else s) in
           case audio_local of
             None \<Rightarrow> (None, s1)
           | Some audio_path \<Rightarrow>
               (case os_path_exists s1 audio_path of
                  Inl e \<Rightarrow> (Some e, s1)
                | Inr ex2 \<Rightarrow>
                    (None,
                     if ex2 then (case audio_path of None \<Rightarrow> s1 | Some p \<Rightarrow> os_remove p s1)
                     else s1))))"

text \<open>
  The view function. \<open>Inl e\<close> is an exception that leaves the function: the prepared
  response is lost and the framework answers in its place.
\<close>

definition transcribe :: "world \<Rightarrow> request \<Rightarrow> fs \<Rightarrow> (exn + response) \<times> fs" where
  "transcribe w req s =
     (case map_of (files req) ''video'' of
        None \<Rightarrow> (Inr (error_response 400 ''No video file provided''), s)
      | Some file \<Rightarrow>
          (let (video_path, s1) = named_temporary_file ''.mp4'' s in
           case file_save w of
             Some e \<Rightarrow> (Inl e, s1)
           | None \<Rightarrow>
               (let s2 = write_file video_path (Uploaded file) s1;
                    (outcome, audio_local, s3) = try_body w video_path s2;
                    resp = (case outcome of
                              Inl e \<Rightarrow> error_response 500 (msg e)
                            | Inr r \<Rightarrow> r);
                    (raised, s4) = finally_block video_path audio_local s3
                in case raised of
                     Some e \<Rightarrow> (Inl e, s4)
                   | None \<Rightarrow> (Inr resp, s4))))"

section \<open>Export endpoint: \<open>/download_excel\<close>\<close>

text \<open>
  \<open>request.get_json()\<close>: \<open>None\<close> or an exception when the content type does not announce
  JSON; otherwise the decoded body, and \<open>BadRequest\<close> when the body cannot be decoded.
\<close>

definition get_json :: "world \<Rightarrow> request \<Rightarrow> exn + json" where
  "get_json w req =
     (if \<not> is_json req then
        (case non_json_body w of
           None \<Rightarrow> Inr JNull
         | Some e \<Rightarrow> Inl e)
      else
        (case decoded req of
           None \<Rightarrow> Inl (Exn BadRequest ''400 Bad Request: Failed to decode JSON object'')
         | Some v \<Rightarrow> Inr v))"

definition excel_path :: string where
  "excel_path = ''transcription_data.xlsx''"

text \<open>The one-row \<open>DataFrame\<close> of lines 142 to 146; the cells are evaluated in source order.\<close>

definition dataframe :: "json \<Rightarrow> exn + sheet" where
  "dataframe data =
     (case py_get data ''extracted_info'' (JObj []) of
        Inl e \<Rightarrow> Inl e
      | Inr ei \<Rightarrow>
     (case py_get ei ''location'' (JStr ''N/A'') of
        Inl e \<Rightarrow> Inl e
      | Inr loc \<Rightarrow>
     (case py_get data ''extracted_info'' (JObj []) of
        Inl e \<Rightarrow> Inl e
      | Inr ei' \<Rightarrow>
     (case py_get ei' ''name'' (JStr ''N/A'') of
        Inl e \<Rightarrow> Inl e
      | Inr nm \<Rightarrow>
     (case py_get data ''transcription'' (JStr []) of
        Inl e \<Rightarrow> Inl e
      | Inr tr \<Rightarrow>
          Inr [[(''Location'', loc), (''Name'', nm), (''Transcription'', tr)]])))))"

text \<open>
  \<open>send_file(name, as_attachment=True)\<close> looks the relative name up under \<open>app.root_path\<close>
  and sends what it finds there.
\<close>

definition send_file :: "world \<Rightarrow> fs \<Rightarrow> string \<Rightarrow> exn + response" where
  "send_file w s filename =
     (case disk s (File (root_path w) filename) of
        None \<Rightarrow> Inl (Exn FileNotFoundError ''No such file or directory'')
      | Some c \<Rightarrow>
          Inr \<lparr>status = 200, body = Attachment (File (root_path w) filename) c\<rparr>)"

text \<open>
  The view function; all of it is inside \<open>try\<close>, and \<open>except Exception\<close> answers 500.
  \<open>to_excel\<close> writes under the working directory.
\<close>

definition download_excel :: "world \<Rightarrow> request \<Rightarrow> fs \<Rightarrow> response \<times> fs" where
  "download_excel w req s =
     (case get_json w req of
        Inl e \<Rightarrow> (error_response 500 (msg e), s)
      | Inr data \<Rightarrow>
          if \<not> truthy data then (error_response 400 ''No JSON data provided'', s)
          else
            (case dataframe data of
               Inl e \<Rightarrow> (error_response 500 (msg e), s)
             | Inr df \<Rightarrow>
                 (case to_excel w df of
                    Failed e left \<Rightarrow>
                      (error_response 500 (msg e),
                       case left of
                         None \<Rightarrow> s
                       | Some c \<Rightarrow> write_file (File (cwd w) excel_path) c s)
                  | Written \<Rightarrow>
                      (let s1 = write_file (File (cwd w) excel_path) (Workbook df) s in
                       case send_file w s1 excel_path of
                         Inl e \<Rightarrow> (error_response 500 (msg e), s1)
                       | Inr r \<Rightarrow> (r, s1)))))"

section \<open>Sample inputs\<close>

text \<open>
  A world in which every collaborator succeeds: the clip has an audio stream, the model is
  loaded, and the application runs in its own directory. An empty file system, a request
  that uploads a video, and the request that posts a JSON value.
\<close>

definition ok_world :: world where
  "ok_world =
     \<lparr>ffmpeg_version = None, file_save = None, video_file_clip = Inr True,
      write_audiofile = None, clip_close = None,
      whisper_model = Some (\<lambda>p. Inr [(''text'', ''my name is Ann'')]),
      to_excel = (\<lambda>df. Written), cwd = ''/app'', root_path = ''/app'',
      non_json_body = None\<rparr>"

definition empty_fs :: fs where
  "empty_fs = \<lparr>disk = Map.empty, counter = 0\<rparr>"

definition video_request :: request where
  "video_request = \<lparr>files = [(''video'', ''bytes'')], is_json = False, decoded = None\<rparr>"

definition json_request :: "json \<Rightarrow> request" where
  "json_request v = \<lparr>files = [], is_json = True, decoded = Some v\<rparr>"

section \<open>Properties of the FieldExtractor\<close>

subsection \<open>Searching\<close>

lemma lit_prefix_self: "lit_prefix lit (lit @ r) = Some r"
  by (induction lit) auto

lemma re_search_here: "match_here lit t = Some g \<Longrightarrow> re_search lit t = Some g"
  by (cases t) auto

text \<open>Start positions at which the pattern does not match are skipped.\<close>

lemma re_search_skip:
  "\<forall>i<length pre. match_here lit (drop i (pre @ s)) = None \<Longrightarrow>
   re_search lit (pre @ s) = re_search lit s"
proof (induction pre)
  case Nil
  then show ?case by simp
next
  case (Cons c pre)
  have here: "match_here lit ((c # pre) @ s) = None"
    using Cons.prems by (auto dest: spec [of _ 0])
  have "\<forall>i<length pre. match_here lit (drop i (pre @ s)) = None"
  proof (intro allI impI)
    fix i assume "i < length pre"
    then have "Suc i < length (c # pre)" by simp
    with Cons.prems have "match_here lit (drop (Suc i) ((c # pre) @ s)) = None" by blast
    then show "match_here lit (drop i (pre @ s)) = None" by simp
  qed
  with Cons.IH have "re_search lit (pre @ s) = re_search lit s" .
  with here show ?case by simp
qed

lemma takeWhile_run:
  assumes "\<forall>c\<in>set g. P c" and "rest = [] \<or> \<not> P (hd rest)"
  shows "takeWhile P (g @ rest) = g"
proof -
  have "takeWhile P rest = []" using assms(2) by (cases rest) auto
  with assms(1) show ?thesis by (simp add: takeWhile_append2)
qed

lemma strip_trailing:
  assumes "\<forall>c\<in>set ws. is_space c" and "s \<noteq> []"
    and "\<not> is_space (hd s)" and "\<not> is_space (last s)"
  shows "strip (s @ ws) = s"
proof -
  have a: "dropWhile is_space (s @ ws) = s @ ws"
    using assms(2,3) by (cases s) auto
  have b: "dropWhile is_space (rev ws @ rev s) = rev s"
  proof -
    have "dropWhile is_space (rev ws @ rev s) = dropWhile is_space (rev s)"
      using assms(1) by (intro dropWhile_append2) simp
    also have "\<dots> = rev s"
      using assms(2,4) by (cases "rev s") (auto simp: last_rev hd_rev)
    finally show ?thesis .
  qed
  show ?thesis by (simp add: strip_def a b)
qed

lemma john_smith_group: "\<forall>c\<in>set ''John Smith''. group_char c"
  by code_simp

lemma john_smith_ends: "\<not> is_space (hd ''John Smith'') \<and> \<not> is_space (last ''John Smith'')"
  by code_simp

lemma first_match_head: "re_search p t = Some g \<Longrightarrow> first_match (p # ps) t = Some (strip g)"
  by simp

lemma first_match_None: "\<forall>p\<in>set ps. re_search p t = None \<Longrightarrow> first_match ps t = None"
  by (induction ps) auto

subsection \<open>The name after "my name is"\<close>

text \<open>
  Claim C3, as stated: every text that contains \<open>my name is John Smith\<close> yields the name
  \<open>John Smith\<close> (no pattern has a higher priority than \<open>my name is X\<close>). It fails: the group
  is the whole run of letters and whitespace after the trigger, so the words that follow
  the name are captured with it.
\<close>

theorem name_john_smith_counterexample:
  "''my name is John Smith and I live in Paris'' =
     [] @ ''my name is John Smith'' @ '' and I live in Paris'' \<and>
   name (extract_info ''my name is John Smith and I live in Paris'') =
     Some ''John Smith and I live in Paris'' \<and>
   name (extract_info ''my name is John Smith and I live in Paris'') \<noteq> Some ''John Smith''"
  by code_simp

text \<open>
  Claim C3, amended: let the text be \<open>pre @ ''my name is John Smith'' @ ws @ rest\<close> where
  the pattern \<open>my name is X\<close> matches at no start position inside \<open>pre\<close>, \<open>ws\<close> is
  whitespace, and \<open>rest\<close> is empty or begins with a character that is neither a letter
  nor whitespace. Then \<open>extract_info\<close> returns the name \<open>John Smith\<close>.
\<close>

theorem name_john_smith:
  assumes t: "t = pre @ ''my name is John Smith'' @ ws @ rest"
    and first: "\<forall>i<length pre. match_here ''my name is '' (drop i t) = None"
    and ws: "\<forall>c\<in>set ws. is_space c"
    and rest: "rest = [] \<or> \<not> group_char (hd rest)"
  shows "name (extract_info t) = Some ''John Smith''"
proof -
  let ?lit = "''my name is ''"
  let ?s = "''my name is John Smith'' @ ws @ rest"
  have split: "?s = ?lit @ ((''John Smith'' @ ws) @ rest)" by simp
  have run: "\<forall>c\<in>set (''John Smith'' @ ws). group_char c"
    using john_smith_group ws by (auto simp: group_char_def)
  have "takeWhile group_char ((''John Smith'' @ ws) @ rest) = ''John Smith'' @ ws"
    using run rest by (rule takeWhile_run)
  then have "match_here ?lit ?s = Some (''John Smith'' @ ws)"
    unfolding match_here_def split lit_prefix_self by simp
  then have "re_search ?lit ?s = Some (''John Smith'' @ ws)"
    by (rule re_search_here)
  moreover have "re_search ?lit t = re_search ?lit ?s"
    unfolding t using first [unfolded t] by (rule re_search_skip)
  ultimately have "re_search ?lit t = Some (''John Smith'' @ ws)" by simp
  then have "first_match name_patterns t = Some (strip (''John Smith'' @ ws))"
    unfolding name_patterns_def by (rule first_match_head)
  moreover have "strip (''John Smith'' @ ws) = ''John Smith''"
    using ws john_smith_ends by (intro strip_trailing) simp_all
  ultimately show ?thesis by (simp add: extract_info_def)
qed

theorem name_john_smith_witness:
  "name (extract_info ''Hello, My Name Is 5; my name is John Smith  . Bye'') =
     Some ''John Smith''"
proof -
  have a: "''Hello, My Name Is 5; my name is John Smith  . Bye'' =
      ''Hello, My Name Is 5; '' @ ''my name is John Smith'' @ ''  '' @ ''. Bye''"
    by simp
  have b: "\<forall>i<length ''Hello, My Name Is 5; ''. match_here ''my name is ''
      (drop i ''Hello, My Name Is 5; my name is John Smith  . Bye'') = None"
    by code_simp
  have c: "\<forall>c\<in>set ''  ''. is_space c"
    by code_simp
  have d: "''. Bye'' = [] \<or> \<not> group_char (hd ''. Bye'')"
    by code_simp
  show ?thesis using name_john_smith [OF a b c d] .
qed

subsection \<open>Pattern priority\<close>

text \<open>
  Claim C5: when a text matches both \<open>my name is X\<close> and \<open>i'm Y\<close>, the name returned is
  the stripped capture of \<open>my name is X\<close>, the first pattern of the list.
\<close>

theorem my_name_is_first:
  assumes "re_search ''my name is '' t = Some x" and "re_search ''i'm '' t = Some y"
  shows "name (extract_info t) = Some (strip x)"
  using assms(1) by (simp add: extract_info_def name_patterns_def)

theorem my_name_is_first_witness:
  "name (extract_info ''I'm Al and my name is Bob.'') = Some ''Bob''"
proof -
  have a: "re_search ''my name is '' ''I'm Al and my name is Bob.'' = Some ''Bob''"
    by code_simp
  have b: "re_search ''i'm '' ''I'm Al and my name is Bob.'' = Some ''Al and my name is Bob''"
    by code_simp
  have c: "strip ''Bob'' = ''Bob''" by code_simp
  show ?thesis using my_name_is_first [OF a b] c by simp
qed

subsection \<open>Totality and the empty result\<close>

text \<open>
  Claim C6: \<open>extract_info\<close> returns a record with both fields for every text, and when no
  name pattern and no location pattern matches, both fields are \<open>None\<close>. No step of the
  function can raise on a \<open>str\<close>: the patterns are valid, group 1 exists in every match.
\<close>

theorem extract_info_total:
  "(\<exists>n l. extract_info t = \<lparr>name = n, location = l\<rparr>) \<and>
   ((\<forall>p\<in>set name_patterns. re_search p t = None) \<and>
    (\<forall>p\<in>set location_patterns. re_search p t = None) \<longrightarrow>
    extract_info t = \<lparr>name = None, location = None\<rparr>)"
  by (simp add: extract_info_def first_match_None)

theorem extract_info_total_witness:
  "extract_info ''Good morning, the weather is fine.'' = \<lparr>name = None, location = None\<rparr>"
proof -
  have a: "\<forall>p\<in>set name_patterns. re_search p ''Good morning, the weather is fine.'' = None"
    by code_simp
  have b: "\<forall>p\<in>set location_patterns.
      re_search p ''Good morning, the weather is fine.'' = None"
    by code_simp
  show ?thesis
    using extract_info_total [of "''Good morning, the weather is fine.''"] a b by blast
qed

section \<open>Properties of the AudioExtractor and the Transcriber\<close>

text \<open>An error pair of \<open>extract_audio\<close> never carries the path of the file it created.\<close>

lemma extract_audio_error_no_path:
  "fst (extract_audio w video_path s) = Inr (a, Some m) \<Longrightarrow> a = None"
  by (auto simp: extract_audio_def Let_def
      split: prod.splits sum.splits option.splits bool.splits if_splits)

text \<open>
  When the probe returns normally or raises one of the two exceptions that \<open>check_ffmpeg\<close>
  catches, \<open>extract_audio\<close> returns a pair with exactly one \<open>None\<close> component;
  \<open>transcribe_audio\<close> always does.
\<close>

lemma audio_result_pairs:
  assumes "ffmpeg_version w = None \<or>
    (\<exists>e. ffmpeg_version w = Some e \<and> (cls e = CalledProcessError \<or> cls e = FileNotFoundError))"
  shows "(\<exists>a e. fst (extract_audio w video_path s) = Inr (a, e) \<and> (a = None) \<noteq> (e = None)) \<and>
         (\<exists>t e. transcribe_audio w audio_path = (t, e) \<and> (t = None) \<noteq> (e = None))"
proof
  show "\<exists>a e. fst (extract_audio w video_path s) = Inr (a, e) \<and> (a = None) \<noteq> (e = None)"
    using assms
    by (auto simp: extract_audio_def check_ffmpeg_def Let_def
        split: prod.splits sum.splits option.splits bool.splits)
  show "\<exists>t e. transcribe_audio w audio_path = (t, e) \<and> (t = None) \<noteq> (e = None)"
    by (auto simp: transcribe_audio_def split: option.splits sum.splits)
qed

text \<open>Every other exception of the probe leaves \<open>extract_audio\<close>, and nothing is created.\<close>

lemma extract_audio_probe_escapes:
  assumes "ffmpeg_version w = Some e"
    and "cls e \<noteq> CalledProcessError" and "cls e \<noteq> FileNotFoundError"
  shows "extract_audio w video_path s = (Inl e, s)"
  using assms by (simp add: extract_audio_def check_ffmpeg_def)

text \<open>
  Claim C9: for every input, \<open>extract_audio\<close> and \<open>transcribe_audio\<close> return a pair with
  exactly one \<open>None\<close> component and let no exception escape. \<open>extract_audio\<close> breaks it.
  When \<open>ffmpeg\<close> is missing, \<open>check_ffmpeg\<close> returns \<open>False\<close> and \<open>extract_audio\<close> returns the
  pair with the message that \<open>ffmpeg\<close> is not installed or not working properly. When
  \<open>ffmpeg\<close> is present but may not be executed, \<open>subprocess.run\<close> raises \<open>PermissionError\<close>,
  which the \<open>except\<close> clause of \<open>check_ffmpeg\<close> (line 28) does not list; the call of
  \<open>check_ffmpeg\<close> (line 32) is outside the \<open>try\<close>, and the exception leaves \<open>extract_audio\<close>.
\<close>

theorem extract_audio_permission_error_escapes:
  "fst (extract_audio
      (ok_world\<lparr>ffmpeg_version := Some (Exn FileNotFoundError ''No such file: ffmpeg'')\<rparr>)
      (Tmp 0 ''.mp4'') empty_fs) =
     Inr (None, Some ''ffmpeg is not installed or not working properly'') \<and>
   fst (extract_audio
      (ok_world\<lparr>ffmpeg_version := Some (Exn PermissionError ''Permission denied: ffmpeg'')\<rparr>)
      (Tmp 0 ''.mp4'') empty_fs) = Inl (Exn PermissionError ''Permission denied: ffmpeg'')"
  by code_simp

section \<open>Properties of the \<open>/transcribe\<close> endpoint\<close>

subsection \<open>The \<open>finally\<close> block\<close>

lemma finally_block_removes_video:
  "disk (snd (finally_block video_path audio_local s)) video_path = None"
  by (auto simp: finally_block_def os_path_exists_def os_remove_def split: option.splits)

lemma finally_block_removes_audio:
  "disk (snd (finally_block video_path (Some (Some p)) s)) p = None"
  by (auto simp: finally_block_def os_path_exists_def os_remove_def)

text \<open>
  When line 113 has bound \<open>audio_path\<close> to \<open>None\<close>, which is what every error pair of
  \<open>extract_audio\<close> does, the test \<open>os.path.exists(audio_path)\<close> raises.
\<close>

lemma finally_block_unassigned:
  "fst (finally_block video_path (Some None) s) = Some (Exn TypeError
     ''stat: path should be string, bytes, os.PathLike or integer, not NoneType'')"
  by (simp add: finally_block_def os_path_exists_def)

text \<open>Once the upload is staged, the staged video is gone when the view function ends.\<close>

lemma transcribe_removes_video:
  assumes "map_of (files req) ''video'' = Some f" and "file_save w = None"
  shows "disk (snd (transcribe w req s)) (Tmp (counter s) ''.mp4'') = None"
proof -
  let ?vp = "Tmp (counter s) ''.mp4''"
  let ?s1 = "s\<lparr>disk := (disk s)(?vp \<mapsto> Blank), counter := Suc (counter s)\<rparr>"
  have nt: "named_temporary_file ''.mp4'' s = (?vp, ?s1)"
    by (simp add: named_temporary_file_def)
  obtain outcome audio_local s3 where
    t: "try_body w ?vp (write_file ?vp (Uploaded f) ?s1) = (outcome, audio_local, s3)"
    by (cases "try_body w ?vp (write_file ?vp (Uploaded f) ?s1)") auto
  obtain raised s4 where
    f: "finally_block ?vp audio_local s3 = (raised, s4)"
    by (cases "finally_block ?vp audio_local s3") auto
  have gone: "disk s4 ?vp = None"
    using finally_block_removes_video [of ?vp audio_local s3]
    by (simp add: f)
  have "snd (transcribe w req s) = s4"
    unfolding transcribe_def nt
    by (simp add: assms t f split: option.splits)
  with gone show ?thesis by simp
qed

subsection \<open>Temporary files after a failed extraction\<close>

text \<open>
  Claim C1: both temporary files of a request are removed before the response is sent,
  whichever stage failed, also when audio extraction fails after it has allocated its
  \<open>.wav\<close> path. The code does not do this. In the request below the upload is staged as
  \<open>Tmp 0 ''.mp4''\<close>, \<open>extract_audio\<close> creates \<open>Tmp 1 ''.wav''\<close> (line 36) and then returns
  \<open>(None, "No audio stream found in video")\<close> (line 41): the name of the file is lost, and
  the file is still on disk when \<open>transcribe\<close> ends. The staged video is removed.
\<close>

theorem transcribe_leaves_audio_file:
  "map_of (files video_request) ''video'' = Some ''bytes'' \<and>
   video_file_clip (ok_world\<lparr>video_file_clip := Inr False\<rparr>) = Inr False \<and>
   disk empty_fs (Tmp 1 ''.wav'') = None \<and>
   disk (snd (transcribe (ok_world\<lparr>video_file_clip := Inr False\<rparr>) video_request empty_fs))
     (Tmp 1 ''.wav'') = Some Blank \<and>
   disk (snd (transcribe (ok_world\<lparr>video_file_clip := Inr False\<rparr>) video_request empty_fs))
     (Tmp 0 ''.mp4'') = None"
  by code_simp

subsection \<open>A video without audio stream\<close>

text \<open>
  Claim C2: for a video without audio stream the endpoint returns status 500 with the JSON
  body \<open>{"error": "No audio stream found in video"}\<close>, and the staged video is removed. The
  code prepares exactly this response (line 128), but the \<open>finally\<close> block then evaluates
  \<open>os.path.exists(audio_path)\<close> with \<open>audio_path = None\<close>; the \<open>TypeError\<close> replaces the
  pending \<open>return\<close> and leaves the view function. The staged video is removed before that.
\<close>

theorem transcribe_no_audio_stream_raises:
  "fst (try_body (ok_world\<lparr>video_file_clip := Inr False\<rparr>) (Tmp 0 ''.mp4'') empty_fs) =
     Inl (Exn Exception ''No audio stream found in video'') \<and>
   fst (transcribe (ok_world\<lparr>video_file_clip := Inr False\<rparr>) video_request empty_fs) =
     Inl (Exn TypeError
       ''stat: path should be string, bytes, os.PathLike or integer, not NoneType'') \<and>
   fst (transcribe (ok_world\<lparr>video_file_clip := Inr False\<rparr>) video_request empty_fs) \<noteq>
     Inr (error_response 500 ''No audio stream found in video'')"
  by code_simp

subsection \<open>A request without video\<close>

text \<open>
  Claim C7: when the multipart payload has no field \<open>video\<close>, the endpoint returns status
  400 with a JSON body that has an \<open>error\<close> field, and the file system is unchanged: no
  temporary file is created.
\<close>

theorem transcribe_without_video:
  assumes "map_of (files req) ''video'' = None"
  shows "transcribe w req s =
    (Inr \<lparr>status = 400, body = Json (JObj [(''error'', JStr ''No video file provided'')])\<rparr>,
     s)"
  using assms by (simp add: transcribe_def error_response_def)

theorem transcribe_without_video_witness:
  "transcribe ok_world \<lparr>files = [(''audio'', ''bytes'')], is_json = False, decoded = None\<rparr>
     empty_fs =
    (Inr \<lparr>status = 400, body = Json (JObj [(''error'', JStr ''No video file provided'')])\<rparr>,
     empty_fs)"
proof -
  have "map_of (files \<lparr>files = [(''audio'', ''bytes'')], is_json = False, decoded = None\<rparr>)
      ''video'' = None"
    by simp
  then show ?thesis by (rule transcribe_without_video)
qed

section \<open>Properties of the export endpoint\<close>

subsection \<open>Absent or empty body\<close>

lemma get_json_request: "get_json w (json_request v) = Inr v"
  by (simp add: get_json_def json_request_def)

text \<open>A body that decodes to \<open>None\<close> or to an empty or zero value is answered with 400.\<close>

lemma download_excel_falsy_body:
  assumes "get_json w req = Inr data" and "\<not> truthy data"
  shows "download_excel w req s = (error_response 400 ''No JSON data provided'', s)"
  using assms by (simp add: download_excel_def)

text \<open>When \<open>get_json\<close> itself raises, the \<open>except\<close> clause answers with status 500.\<close>

lemma download_excel_get_json_raises:
  "get_json w req = Inl e \<Longrightarrow> download_excel w req s = (error_response 500 (msg e), s)"
  by (simp add: download_excel_def)

text \<open>
  Claim C8: a POST whose body is absent or empty is answered with status 400 and an
  \<open>error\<close> field, not with 500. The code has the answer (lines 139 and 140), but does not
  reach it for these requests: \<open>request.get_json()\<close> is called inside the \<open>try\<close>, it raises
  \<open>BadRequest\<close> for a body of length zero that is announced as JSON, and \<open>except Exception\<close>
  (line 151) turns that into status 500. The same happens to a request without any body
  where \<open>get_json\<close> rejects a content type that is not JSON.
\<close>

theorem download_excel_empty_body:
  "fst (download_excel ok_world \<lparr>files = [], is_json = True, decoded = None\<rparr> empty_fs) =
     \<lparr>status = 500,
      body = Json (JObj
        [(''error'', JStr ''400 Bad Request: Failed to decode JSON object'')])\<rparr> \<and>
   fst (download_excel
      (ok_world\<lparr>non_json_body :=
         Some (Exn UnsupportedMediaType ''415 Unsupported Media Type'')\<rparr>)
      \<lparr>files = [], is_json = False, decoded = None\<rparr> empty_fs) =
     \<lparr>status = 500,
      body = Json (JObj [(''error'', JStr ''415 Unsupported Media Type'')])\<rparr>"
  by code_simp

subsection \<open>The row of the spreadsheet\<close>

lemma dataframe_object:
  assumes "map_of kvs ''extracted_info'' = None \<and> ei = [] \<or>
           map_of kvs ''extracted_info'' = Some (JObj ei)"
  shows "dataframe (JObj kvs) =
     Inr [[(''Location'', dict_get ei ''location'' (JStr ''N/A'')),
           (''Name'', dict_get ei ''name'' (JStr ''N/A'')),
           (''Transcription'', dict_get kvs ''transcription'' (JStr []))]]"
proof -
  have "dict_get kvs ''extracted_info'' (JObj []) = JObj ei"
    using assms by (auto simp: dict_get_def)
  then show ?thesis by (simp add: dataframe_def)
qed



text \<open>What the endpoint does once the row is built and \<open>to_excel\<close> has written it.\<close>

lemma download_excel_writes:
  assumes "get_json w req = Inr (JObj kvs)" and "kvs \<noteq> []"
    and "dataframe (JObj kvs) = Inr df" and "to_excel w df = Written"
  shows "snd (download_excel w req s) = write_file (File (cwd w) excel_path) (Workbook df) s"
  using assms by (simp add: download_excel_def Let_def split: sum.splits)

lemma download_excel_sends:
  assumes "get_json w req = Inr (JObj kvs)" and "kvs \<noteq> []"
    and "dataframe (JObj kvs) = Inr df" and "to_excel w df = Written"
    and "root_path w = cwd w"
  shows "fst (download_excel w req s) =
    \<lparr>status = 200, body = Attachment (File (cwd w) excel_path) (Workbook df)\<rparr>"
  using assms by (simp add: download_excel_def send_file_def write_file_def)


text \<open>
  Claim C4, as stated: the spreadsheet has one row whose Location, Name and Transcription
  cells equal the input fields, and every missing field is rendered as \<open>N/A\<close>. It fails for
  the transcription: the default of \<open>data.get("transcription", "")\<close> is the empty string,
  and that is what the written workbook holds.
\<close>

theorem export_row_counterexample:
  "map_of [(''extracted_info'', JObj [(''name'', JStr ''John''), (''location'', JStr ''Paris'')])]
     ''transcription'' = None \<and>
   disk (snd (download_excel ok_world
       (json_request (JObj
          [(''extracted_info'',
            JObj [(''name'', JStr ''John''), (''location'', JStr ''Paris'')])]))
       empty_fs))
     (File ''/app'' ''transcription_data.xlsx'') =
   Some (Workbook [[(''Location'', JStr ''Paris''), (''Name'', JStr ''John''),
                    (''Transcription'', JStr [])]]) \<and>
   JStr [] \<noteq> JStr ''N/A''"
  by code_simp

text \<open>
  Claim C4, amended: for a body that is a non-empty JSON object whose \<open>extracted_info\<close> is
  absent or an object, and when \<open>to_excel\<close> writes the spreadsheet, the workbook written to
  \<open>transcription_data.xlsx\<close> in the working directory holds exactly one row: Location and
  Name are the \<open>location\<close> and \<open>name\<close> of \<open>extracted_info\<close>, each \<open>N/A\<close> when missing, and
  Transcription is the \<open>transcription\<close> of the body, the empty string when missing. When
  the root path of the application is the working directory, the endpoint answers 200 with
  this workbook as attachment.
\<close>

theorem export_row:
  assumes body: "get_json w req = Inr (JObj kvs)" and nonempty: "kvs \<noteq> []"
    and ei: "map_of kvs ''extracted_info'' = None \<and> ei = [] \<or>
             map_of kvs ''extracted_info'' = Some (JObj ei)"
    and row: "row = [(''Location'', dict_get ei ''location'' (JStr ''N/A'')),
                     (''Name'', dict_get ei ''name'' (JStr ''N/A'')),
                     (''Transcription'', dict_get kvs ''transcription'' (JStr []))]"
    and written: "to_excel w [row] = Written"
  shows "disk (snd (download_excel w req s)) (File (cwd w) excel_path) =
           Some (Workbook [row]) \<and>
         (root_path w = cwd w \<longrightarrow>
          fst (download_excel w req s) =
            \<lparr>status = 200, body = Attachment (File (cwd w) excel_path) (Workbook [row])\<rparr>)"
proof -
  have df: "dataframe (JObj kvs) = Inr [row]"
    unfolding row using ei by (rule dataframe_object)
  have "snd (download_excel w req s) =
      write_file (File (cwd w) excel_path) (Workbook [row]) s"
    using body nonempty df written by (rule download_excel_writes)
  then have a: "disk (snd (download_excel w req s)) (File (cwd w) excel_path) =
      Some (Workbook [row])"
    by (simp add: write_file_def)
  have b: "root_path w = cwd w \<longrightarrow>
      fst (download_excel w req s) =
        \<lparr>status = 200, body = Attachment (File (cwd w) excel_path) (Workbook [row])\<rparr>"
    using download_excel_sends [OF body nonempty df written] by blast
  from a b show ?thesis by (rule conjI)
qed

theorem export_row_witness:
  "disk (snd (download_excel ok_world
       (json_request (JObj
          [(''transcription'', JStr ''i live in Rome''),
           (''extracted_info'', JObj [(''location'', JStr ''Rome'')])]))
       empty_fs))
     (File ''/app'' ''transcription_data.xlsx'') =
   Some (Workbook [[(''Location'', JStr ''Rome''), (''Name'', JStr ''N/A''),
                    (''Transcription'', JStr ''i live in Rome'')]]) \<and>
   fst (download_excel ok_world
       (json_request (JObj
          [(''transcription'', JStr ''i live in Rome''),
           (''extracted_info'', JObj [(''location'', JStr ''Rome'')])]))
       empty_fs) =
   \<lparr>status = 200,
    body = Attachment (File ''/app'' ''transcription_data.xlsx'')
      (Workbook [[(''Location'', JStr ''Rome''), (''Name'', JStr ''N/A''),
                  (''Transcription'', JStr ''i live in Rome'')]])\<rparr>"
proof -
  let ?ei = "[(''location'', JStr ''Rome'')]"
  let ?kvs = "[(''transcription'', JStr ''i live in Rome''), (''extracted_info'', JObj ?ei)]"
  let ?row = "[(''Location'', JStr ''Rome''), (''Name'', JStr ''N/A''),
               (''Transcription'', JStr ''i live in Rome'')]"
  have a: "get_json ok_world (json_request (JObj ?kvs)) = Inr (JObj ?kvs)"
    by (rule get_json_request)
  have b: "?kvs \<noteq> []" by simp
  have c: "map_of ?kvs ''extracted_info'' = None \<and> ?ei = [] \<or>
           map_of ?kvs ''extracted_info'' = Some (JObj ?ei)"
    by simp
  have d: "?row = [(''Location'', dict_get ?ei ''location'' (JStr ''N/A'')),
                   (''Name'', dict_get ?ei ''name'' (JStr ''N/A'')),
                   (''Transcription'', dict_get ?kvs ''transcription'' (JStr []))]"
    by code_simp
  have e: "to_excel ok_world [?row] = Written" by (simp add: ok_world_def)
  have f: "cwd ok_world = ''/app''" by (simp add: ok_world_def)
  have g: "root_path ok_world = cwd ok_world" by (simp add: ok_world_def)
  have h: "excel_path = ''transcription_data.xlsx''" by (simp add: excel_path_def)
  from export_row [OF a b c d e, of empty_fs] g
  have "disk (snd (download_excel ok_world (json_request (JObj ?kvs)) empty_fs))
          (File (cwd ok_world) excel_path) = Some (Workbook [?row]) \<and>
        fst (download_excel ok_world (json_request (JObj ?kvs)) empty_fs) =
          \<lparr>status = 200,
           body = Attachment (File (cwd ok_world) excel_path) (Workbook [?row])\<rparr>"
    by (elim conjE impE) (assumption, rule conjI)
  then show ?thesis unfolding f h .
qed

subsection \<open>Where the placeholder applies\<close>




end
